theory Spec2Isabelle
  imports Complex_Main
begin

section \<open>JavaScript strings and numbers\<close>

text \<open>
  The number formatter of \<^verbatim>\<open>intl-unified-numberformat\<close> works on JavaScript strings and
  numbers. Strings are modelled as \<^typ>\<open>string\<close>. A finite number is modelled by the
  rational it denotes. The arithmetic on numbers is that of the engine the code runs on,
  the host, and is a parameter of every function below.
\<close>

definition js_slice :: "string \<Rightarrow> int \<Rightarrow> int \<Rightarrow> string" where
  \<comment> \<open>\<^verbatim>\<open>s.slice(a, b)\<close>: negative indices count from the end, all are clamped.\<close>
  "js_slice s a b =
     (let len = int (length s);
          from = (if a < 0 then max (len + a) 0 else min a len);
          to = (if b < 0 then max (len + b) 0 else min b len)
      in take (nat (to - from)) (drop (nat from) s))"

definition js_slice_from :: "string \<Rightarrow> int \<Rightarrow> string" where
  \<comment> \<open>\<^verbatim>\<open>s.slice(a)\<close>\<close>
  "js_slice_from s a = js_slice s a (int (length s))"

definition repeat :: "string \<Rightarrow> int \<Rightarrow> string" where
  \<comment> \<open>lodash \<^verbatim>\<open>repeat(s, n)\<close>: the empty string when \<open>n < 1\<close>.\<close>
  "repeat s n = concat (replicate (nat n) s)"

definition endsWith :: "string \<Rightarrow> string \<Rightarrow> bool" where
  \<comment> \<open>lodash \<^verbatim>\<open>endsWith(s, t)\<close>\<close>
  "endsWith s t = (length t \<le> length s \<and> drop (length s - length t) s = t)"

fun indexOf :: "string \<Rightarrow> char \<Rightarrow> int" where
  \<comment> \<open>\<^verbatim>\<open>s.indexOf(c)\<close> for a one-character needle; \<open>-1\<close> when absent.\<close>
  "indexOf [] c = -1"
| "indexOf (d # s) c = (if d = c then 0 else (let i = indexOf s c in if i < 0 then -1 else i + 1))"

function digits :: "int \<Rightarrow> string" where
  \<comment> \<open>the decimal digits of a non-negative integer, most significant first\<close>
  "digits n =
     (if n < 10 then [char_of (48 + n)] else digits (n div 10) @ [char_of (48 + n mod 10)])"
  by pat_completeness auto
termination
  by (relation "measure nat") auto

declare digits.simps [simp del]

definition pow10 :: "int \<Rightarrow> rat" where
  \<comment> \<open>the power of ten \<open>10^k\<close>, exactly\<close>
  "pow10 k = (if 0 \<le> k then 10 ^ nat k else 1 / 10 ^ nat (- k))"

function log10_up :: "rat \<Rightarrow> int" where
  "log10_up x = (if 10 \<le> x then log10_up (x / 10) + 1 else 0)"
  by pat_completeness auto
termination
proof (relation "measure (\<lambda>x. nat \<lfloor>x\<rfloor>)")
  show "wf (measure (\<lambda>x::rat. nat \<lfloor>x\<rfloor>))" by simp
next
  fix x :: rat
  assume h: "10 \<le> x"
  have "x / 10 < of_int \<lfloor>x\<rfloor>"
  proof -
    have "x < of_int \<lfloor>x\<rfloor> + 1" by linarith
    with h show ?thesis by linarith
  qed
  then have "\<lfloor>x / 10\<rfloor> < \<lfloor>x\<rfloor>" by (simp add: floor_less_iff)
  moreover from h have "0 < \<lfloor>x\<rfloor>" by linarith
  ultimately show "(x / 10, x) \<in> measure (\<lambda>x. nat \<lfloor>x\<rfloor>)" by simp
qed

declare log10_up.simps [simp del]

function log10_down :: "rat \<Rightarrow> int" where
  "log10_down x = (if 0 < x \<and> x < 1 then log10_down (x * 10) - 1 else 0)"
  by pat_completeness auto
termination
proof (relation "measure (\<lambda>x. nat \<lceil>1 / x\<rceil>)")
  show "wf (measure (\<lambda>x::rat. nat \<lceil>1 / x\<rceil>))" by simp
next
  fix x :: rat
  assume h: "0 < x \<and> x < 1"
  define y where "y = 1 / x"
  from h have y1: "1 < y" by (simp add: y_def)
  have eq: "1 / (x * 10) = y / 10" by (simp add: y_def)
  have "y / 10 \<le> of_int (\<lceil>y\<rceil> - 1)"
  proof (cases "y \<le> 10")
    case True
    from y1 have "2 \<le> \<lceil>y\<rceil>" by linarith
    then have "(1::rat) \<le> of_int (\<lceil>y\<rceil> - 1)" by simp
    with True show ?thesis by linarith
  next
    case False
    have "y \<le> of_int \<lceil>y\<rceil>" by linarith
    with False have "y / 10 \<le> of_int \<lceil>y\<rceil> - 1" by linarith
    then show ?thesis by simp
  qed
  then have "\<lceil>y / 10\<rceil> \<le> \<lceil>y\<rceil> - 1" by (simp only: ceiling_le_iff)
  moreover from y1 have "0 < \<lceil>y\<rceil>" by linarith
  ultimately show "(x * 10, x) \<in> measure (\<lambda>x. nat \<lceil>1 / x\<rceil>)"
    by (simp add: eq y_def [symmetric])
qed

declare log10_down.simps [simp del]

definition floorLog10 :: "rat \<Rightarrow> int" where
  \<comment> \<open>the integer \<open>e\<close> with \<open>10^e \<le> x < 10^(e+1)\<close>, for \<open>x > 0\<close>\<close>
  "floorLog10 x = (if 1 \<le> x then log10_up x else log10_down x)"

section \<open>The host: arithmetic on doubles\<close>

text \<open>
  ECMAScript defines \<^verbatim>\<open>*\<close>, \<^verbatim>\<open>/\<close> and \<^verbatim>\<open>-\<close> on finite doubles as the exact result rounded
  to a double, and leaves \<^verbatim>\<open>**\<close>, \<^verbatim>\<open>Math.pow\<close> and \<^verbatim>\<open>Math.log\<close> to the implementation. A
  host gives the rounding, the powers of ten, the magnitude
  \<^verbatim>\<open>Math.floor(Math.log(x) / Math.log(10))\<close> (the one expression in which the code uses
  \<^verbatim>\<open>Math.log\<close>), and the string that \<^verbatim>\<open>Number.prototype.toString\<close> gives for an integer
  above \<open>2^53\<close> in absolute value: the shortest digits that read back as the same double,
  followed by zeros, and exponent notation from \<open>10^21\<close> on. Up to \<open>2^53\<close> every integer is a
  double and is written with all its digits. An operation whose result is not finite is
  outside the model; so is the magnitude of a number that is not positive, of which
  \<^verbatim>\<open>Math.log\<close> is not finite (the formatter takes the magnitude of positive numbers only).
\<close>

record host =
  h_round :: "rat \<Rightarrow> rat"
  h_pow10 :: "int \<Rightarrow> rat"
  h_magnitude :: "rat \<Rightarrow> int"
  h_toString :: "int \<Rightarrow> string"

definition h_mul :: "host \<Rightarrow> rat \<Rightarrow> rat \<Rightarrow> rat" where
  \<comment> \<open>\<^verbatim>\<open>a * b\<close>\<close>
  "h_mul h a b = h_round h (a * b)"

definition h_div :: "host \<Rightarrow> rat \<Rightarrow> rat \<Rightarrow> rat" where
  \<comment> \<open>\<^verbatim>\<open>a / b\<close>\<close>
  "h_div h a b = h_round h (a / b)"

definition h_sub :: "host \<Rightarrow> rat \<Rightarrow> rat \<Rightarrow> rat" where
  \<comment> \<open>\<^verbatim>\<open>a - b\<close>\<close>
  "h_sub h a b = h_round h (a - b)"

definition toString :: "host \<Rightarrow> int \<Rightarrow> string" where
  \<comment> \<open>\<^verbatim>\<open>n.toString()\<close> for an integer-valued number\<close>
  "toString h n =
     (if \<bar>n\<bar> \<le> 2 ^ 53 then (if n < 0 then CHR ''-'' # digits (- n) else digits n)
      else h_toString h n)"

text \<open>
  The exact host rounds nothing: its powers of ten and its magnitude are the exact ones,
  and it writes every digit of an integer, in exponent notation from \<open>10^21\<close> on. It is the
  host of the concrete runs of the claims.
\<close>

definition exponential :: "int \<Rightarrow> string" where
  \<comment> \<open>\<open>d.ddde+k\<close> with all the digits of \<open>n\<close> up to its last non-zero one\<close>
  "exponential n =
     (let d = digits n;
          sig = rev (dropWhile (\<lambda>c. c = CHR ''0'') (rev d))
      in take 1 sig @ (if 1 < length sig then ''.'' @ drop 1 sig else [])
           @ ''e+'' @ digits (int (length d) - 1))"

definition exactString :: "int \<Rightarrow> string" where
  "exactString n =
     (if n < 0 then
        CHR ''-'' # (if - n < 10 ^ 21 then digits (- n) else exponential (- n))
      else if n < 10 ^ 21 then digits n
      else exponential n)"

definition exactHost :: host where
  "exactHost =
     \<lparr>h_round = (\<lambda>x. x), h_pow10 = pow10, h_magnitude = floorLog10,
      h_toString = exactString\<rparr>"

text \<open>
  The rounding of the engine is that of IEEE 754 binary64: to the nearest double, and at a
  tie to the one with the even significand. A double has a significand of 53 bits; below
  \<open>2^(-1022)\<close> the doubles are the multiples of \<open>2^(-1074)\<close>. A number of magnitude \<open>2^1024\<close>
  or more has no finite double and is outside the model.
\<close>

function log2_up :: "rat \<Rightarrow> int" where
  "log2_up x = (if 2 \<le> x then log2_up (x / 2) + 1 else 0)"
  by pat_completeness auto
termination
proof (relation "measure (\<lambda>x. nat \<lfloor>x\<rfloor>)")
  show "wf (measure (\<lambda>x::rat. nat \<lfloor>x\<rfloor>))" by simp
next
  fix x :: rat
  assume h: "2 \<le> x"
  have "x / 2 < of_int \<lfloor>x\<rfloor>"
  proof -
    have "x < of_int \<lfloor>x\<rfloor> + 1" by linarith
    with h show ?thesis by linarith
  qed
  then have "\<lfloor>x / 2\<rfloor> < \<lfloor>x\<rfloor>" by (simp add: floor_less_iff)
  moreover from h have "0 < \<lfloor>x\<rfloor>" by linarith
  ultimately show "(x / 2, x) \<in> measure (\<lambda>x. nat \<lfloor>x\<rfloor>)" by simp
qed

declare log2_up.simps [simp del]

function log2_down :: "rat \<Rightarrow> int" where
  "log2_down x = (if 0 < x \<and> x < 1 then log2_down (x * 2) - 1 else 0)"
  by pat_completeness auto
termination
proof (relation "measure (\<lambda>x. nat \<lceil>1 / x\<rceil>)")
  show "wf (measure (\<lambda>x::rat. nat \<lceil>1 / x\<rceil>))" by simp
next
  fix x :: rat
  assume h: "0 < x \<and> x < 1"
  define y where "y = 1 / x"
  from h have y1: "1 < y" by (simp add: y_def)
  have eq: "1 / (x * 2) = y / 2" by (simp add: y_def)
  have "y / 2 \<le> of_int (\<lceil>y\<rceil> - 1)"
  proof (cases "y \<le> 2")
    case True
    from y1 have "2 \<le> \<lceil>y\<rceil>" by linarith
    then have "(1::rat) \<le> of_int (\<lceil>y\<rceil> - 1)" by simp
    with True show ?thesis by linarith
  next
    case False
    have "y \<le> of_int \<lceil>y\<rceil>" by linarith
    with False have "y / 2 \<le> of_int \<lceil>y\<rceil> - 1" by linarith
    then show ?thesis by simp
  qed
  then have "\<lceil>y / 2\<rceil> \<le> \<lceil>y\<rceil> - 1" by (simp only: ceiling_le_iff)
  moreover from y1 have "0 < \<lceil>y\<rceil>" by linarith
  ultimately show "(x * 2, x) \<in> measure (\<lambda>x. nat \<lceil>1 / x\<rceil>)"
    by (simp add: eq y_def [symmetric])
qed

declare log2_down.simps [simp del]

definition floorLog2 :: "rat \<Rightarrow> int" where
  \<comment> \<open>the integer \<open>e\<close> with \<open>2^e \<le> x < 2^(e+1)\<close>, for \<open>x > 0\<close>\<close>
  "floorLog2 x = (if 1 \<le> x then log2_up x else log2_down x)"

definition pow2 :: "int \<Rightarrow> rat" where
  "pow2 k = (if 0 \<le> k then 2 ^ nat k else 1 / 2 ^ nat (- k))"

definition binary64 :: "rat \<Rightarrow> rat" where
  \<comment> \<open>\<open>k * 2^(e - 52)\<close> for the integer \<open>k\<close> nearest to \<open>x / 2^(e - 52)\<close>, the even one at a tie\<close>
  "binary64 x =
     (if x = 0 then 0
      else
        (let e = max (floorLog2 \<bar>x\<bar>) (- 1022);
             u = pow2 (e - 52);
             q = x / u;
             f = \<lfloor>q\<rfloor>;
             k = (if q - of_int f < 1/2 then f
                  else if 1/2 < q - of_int f then f + 1
                  else if even f then f else f + 1)
         in of_int k * u))"

section \<open>utils: ToRawFixed and ToRawPrecision\<close>

record RawNumberFormatResult =
  formattedString :: string
  roundedNumber :: rat
  integerDigitsCount :: int

definition roundTies :: "host \<Rightarrow> rat \<Rightarrow> int" where
  \<comment> \<open>the block that computes \<^verbatim>\<open>n\<close> from \<^verbatim>\<open>exactSolve\<close> in both functions\<close>
  "roundTies h exactSolve =
     (let roundDown = \<lfloor>exactSolve\<rfloor>;
          roundUp = \<lceil>exactSolve\<rceil>
      in if h_sub h exactSolve (of_int roundDown) < h_sub h (of_int roundUp) exactSolve
         then roundDown else roundUp)"

fun trimZeros :: "string \<Rightarrow> nat \<Rightarrow> string" where
  \<comment> \<open>\<^verbatim>\<open>while (cut > 0 && endsWith(m, '0')) { m = m.slice(0, -1); cut--; }\<close>\<close>
  "trimZeros m 0 = m"
| "trimZeros m (Suc c) = (if endsWith m ''0'' then trimZeros (js_slice m 0 (-1)) c else m)"

definition dropPoint :: "string \<Rightarrow> string" where
  \<comment> \<open>\<^verbatim>\<open>if (endsWith(m, '.')) { m = m.slice(0, -1); }\<close>\<close>
  "dropPoint m = (if endsWith m ''.'' then js_slice m 0 (-1) else m)"

definition toRawFixed_n :: "host \<Rightarrow> rat \<Rightarrow> nat \<Rightarrow> int" where
  \<comment> \<open>the integer \<^verbatim>\<open>n\<close> of \<^verbatim>\<open>toRawFixed\<close>\<close>
  "toRawFixed_n h x f = roundTies h (h_mul h x (h_pow10 h (int f)))"

definition toRawFixed :: "host \<Rightarrow> rat \<Rightarrow> nat \<Rightarrow> nat \<Rightarrow> RawNumberFormatResult" where
  "toRawFixed h x minFraction maxFraction =
     (let f = maxFraction;
          n = toRawFixed_n h x f;
          xFinal = h_div h x (h_pow10 h (int f));
          m = (if n = 0 then ''0'' else toString h n);
          (m, int') =
            (if f \<noteq> 0 then
               (let k = int (length m);
                    (m, k) = (if k \<le> int f then (repeat ''0'' (int f + 1 - k) @ m, int f + 1)
                              else (m, k));
                    a = js_slice m 0 (k - int f);
                    b = js_slice_from m (k - int f)
                in (a @ ''.'' @ b, int (length a)))
             else (m, int (length m)));
          m = trimZeros m (maxFraction - minFraction);
          m = dropPoint m
      in \<lparr>formattedString = m, roundedNumber = xFinal, integerDigitsCount = int'\<rparr>)"

definition toRawPrecision_e :: "host \<Rightarrow> rat \<Rightarrow> int" where
  \<comment> \<open>the magnitude \<^verbatim>\<open>e\<close> of \<^verbatim>\<open>toRawPrecision\<close>\<close>
  "toRawPrecision_e h x = (if x = 0 then 0 else h_magnitude h x)"

definition toRawPrecision_n :: "host \<Rightarrow> rat \<Rightarrow> nat \<Rightarrow> int" where
  \<comment> \<open>the integer \<^verbatim>\<open>n\<close> of \<^verbatim>\<open>toRawPrecision\<close>, for \<open>x \<noteq> 0\<close>\<close>
  "toRawPrecision_n h x p =
     roundTies h (h_div h x (h_pow10 h (h_magnitude h x - int p + 1)))"

definition toRawPrecision :: "host \<Rightarrow> rat \<Rightarrow> nat \<Rightarrow> nat \<Rightarrow> RawNumberFormatResult" where
  "toRawPrecision h x minPrecision maxPrecision =
     (let p = int maxPrecision;
          e = toRawPrecision_e h x;
          (m, xFinal) =
            (if x = 0 then (repeat ''0'' p, 0)
             else (let n = toRawPrecision_n h x maxPrecision
                   in (toString h n, h_mul h (of_int n) (h_pow10 h (e - p + 1)))));
          (m, int') =
            (if p - 1 \<le> e then (m @ repeat ''0'' (e - p + 1), e + 1)
             else if 0 \<le> e then
               (js_slice m 0 (e + 1) @ ''.'' @ js_slice_from m (e + 1), e + 1)
             else (''0.'' @ repeat ''0'' (- e - 1) @ m, 1));
          m = (if 0 \<le> indexOf m CHR ''.'' \<and> minPrecision < maxPrecision
               then dropPoint (trimZeros m (maxPrecision - minPrecision))
               else m)
      in \<lparr>formattedString = m, roundedNumber = xFinal, integerDigitsCount = int'\<rparr>)"

section \<open>core: numbers, configuration and locale data\<close>

text \<open>
  A JavaScript number is \<open>NaN\<close>, an infinity, or finite; a finite one is negative zero or
  a rational (\<open>Fin 0\<close> is positive zero).
\<close>

datatype fnum = NegZero | Fin rat

datatype number = NaN | PosInfinity | NegInfinity | Finite fnum

fun fnum_val :: "fnum \<Rightarrow> rat" where
  "fnum_val NegZero = 0"
| "fnum_val (Fin r) = r"

fun fnum_neg :: "fnum \<Rightarrow> fnum" where
  \<comment> \<open>\<^verbatim>\<open>-x\<close>\<close>
  "fnum_neg NegZero = Fin 0"
| "fnum_neg (Fin r) = (if r = 0 then NegZero else Fin (- r))"

fun fnum_scale :: "host \<Rightarrow> fnum \<Rightarrow> rat \<Rightarrow> fnum" where
  \<comment> \<open>\<^verbatim>\<open>x * q\<close> for a finite \<open>q \<ge> 0\<close>: a zero product has the sign of \<open>x\<close>\<close>
  "fnum_scale h NegZero q = NegZero"
| "fnum_scale h (Fin r) q = (if r < 0 \<and> h_mul h r q = 0 then NegZero else Fin (h_mul h r q))"

fun fnum_lt0 :: "fnum \<Rightarrow> bool" where
  \<comment> \<open>\<^verbatim>\<open>x < 0\<close>\<close>
  "fnum_lt0 NegZero = False"
| "fnum_lt0 (Fin r) = (r < 0)"

fun fnum_isNegZero :: "fnum \<Rightarrow> bool" where
  \<comment> \<open>\<^verbatim>\<open>1 / x === -Infinity\<close>\<close>
  "fnum_isNegZero NegZero = True"
| "fnum_isNegZero (Fin r) = False"

definition fnum_isZero :: "fnum \<Rightarrow> bool" where
  \<comment> \<open>\<^verbatim>\<open>x === 0\<close>, true of both zeros\<close>
  "fnum_isZero x = (fnum_val x = 0)"

datatype style = Decimal | Percent | Currency | UnitStyle
datatype notationOption = Standard | Scientific | Engineering | Compact
datatype signDisplay = Auto | Always | Never | ExceptZero
datatype roundingType = SignificantDigits | FractionDigits | CompactRounding
datatype compactDisplay = Short | Long
datatype unitDisplay = UnitLong | UnitShort | UnitNarrow

text \<open>
  The locale data types (\<^verbatim>\<open>NumberInternalSlots\<close>, \<^verbatim>\<open>SignDisplayPattern\<close>,
  \<^verbatim>\<open>NotationPattern\<close>, \<^verbatim>\<open>SignPattern\<close>) and the table \<^verbatim>\<open>ILND\<close> are declared outside
  the two source files. The tables keyed by a closed set of names are total functions; the
  ones keyed by a unit or currency identifier are maps, and reading through a missing entry
  is the \<open>TypeError\<close> of JavaScript.
\<close>

datatype displayNotation = StandardD | ScientificD | CompactShort | CompactLong
datatype signPattern = positivePattern | zeroPattern | negativePattern

type_synonym SignDisplayPattern = "signDisplay \<Rightarrow> displayNotation \<Rightarrow> signPattern \<Rightarrow> string"

datatype pluralData = PString string | PRules string string
  \<comment> \<open>a string, or a table by plural category of which the entries \<open>one\<close> and \<open>other\<close> are read\<close>

record symbols =
  nan :: string
  infinity :: string
  group :: string
  decimal :: string
  plusSign :: string
  minusSign :: string
  exponential :: string
  percentSign :: string

record currencyData =
  currencyName :: "pluralData option"
  currencySymbol :: "string option"
  currencyNarrowSymbol :: "string option"

record localeILD =
  symbols :: symbols
  unitSymbols :: "string \<rightharpoonup> (string \<rightharpoonup> pluralData)"
  currencySymbols :: "string \<rightharpoonup> currencyData"

record localePatterns =
  decimalPatterns :: SignDisplayPattern
  percentPatterns :: SignDisplayPattern
  unitPatterns :: "string \<rightharpoonup> (unitDisplay \<Rightarrow> SignDisplayPattern)"

record NumberInternalSlots =
  ild :: localeILD
  patterns :: localePatterns

text \<open>
  The internal slots of a formatter that the formatting functions read (the slot
  \<^verbatim>\<open>notation\<close> is the field \<open>notationSlot\<close>). A slot that the constructor leaves unset
  for a rounding type is not read under it.
\<close>

record UnifiedNumberFormatInternal =
  style :: style
  currency :: "string option"
  unit :: "string option"
  unitDisplay :: unitDisplay
  roundingType :: roundingType
  notationSlot :: notationOption
  compactDisplay :: compactDisplay
  signDisplay :: signDisplay
  useGrouping :: bool
  minimumIntegerDigits :: nat
  minimumFractionDigits :: nat
  maximumFractionDigits :: nat
  minimumSignificantDigits :: nat
  maximumSignificantDigits :: nat
  ildData :: NumberInternalSlots
  numberingSystem :: string

datatype error = Error string | TypeError

datatype UnifiedNumberFormatPart = Part (part_type: string) (part_value: string)

record FormatNumberResult =
  fn_roundedNumber :: fnum
  fn_formattedString :: string

section \<open>core: rounding to a string and the exponent\<close>

definition formatNumberToString ::
    "host \<Rightarrow> UnifiedNumberFormatInternal \<Rightarrow> fnum \<Rightarrow> FormatNumberResult" where
  "formatNumberToString h nf x0 =
     (let isNegative = (fnum_lt0 x0 \<or> fnum_isNegZero x0);
          x = (if isNegative then fnum_neg x0 else x0);
          result =
            (if roundingType nf = SignificantDigits then
               toRawPrecision h (fnum_val x) (minimumSignificantDigits nf)
                 (maximumSignificantDigits nf)
             else if roundingType nf = FractionDigits then
               toRawFixed h (fnum_val x) (minimumFractionDigits nf) (maximumFractionDigits nf)
             else
               (let result = toRawFixed h (fnum_val x) 0 0
                in if integerDigitsCount result = 1 then toRawPrecision h (fnum_val x) 1 2
                   else result));
          x = Fin (roundedNumber result);
          string = formattedString result;
          int' = integerDigitsCount result;
          minInteger = int (minimumIntegerDigits nf);
          string = (if int' < minInteger then repeat ''0'' (minInteger - int') @ string
                    else string);
          x = (if isNegative then fnum_neg x else x)
      in \<lparr>fn_roundedNumber = x, fn_formattedString = string\<rparr>)"

definition computeExponentForMagnitude ::
    "UnifiedNumberFormatInternal \<Rightarrow> int \<Rightarrow> error + int" where
  "computeExponentForMagnitude nf magnitude =
     (case notationSlot nf of
        Standard \<Rightarrow> Inr 0
      | Scientific \<Rightarrow> Inr magnitude
      | Engineering \<Rightarrow> Inr ((magnitude div 3) * 3)
          \<comment> \<open>\<^verbatim>\<open>Math.floor(magnitude / 3) * 3\<close>, on an integer\<close>
      | Compact \<Rightarrow> Inl (Error ''`compact` is not implemented yet.''))"

definition computeExponent ::
    "host \<Rightarrow> UnifiedNumberFormatInternal \<Rightarrow> fnum \<Rightarrow> error + int" where
  "computeExponent h nf x0 =
     (if fnum_isZero x0 then Inr 0
      else
        (let x = (if fnum_lt0 x0 then fnum_neg x0 else x0);
             magnitude = h_magnitude h (fnum_val x)
         in case computeExponentForMagnitude nf magnitude of
              Inl err \<Rightarrow> Inl err
            | Inr exponent \<Rightarrow>
                (let x = fnum_scale h x (h_pow10 h (- exponent));
                     formatNumberResult = formatNumberToString h nf x
                 in if fnum_isZero (fn_roundedNumber formatNumberResult) then Inr exponent
                    else
                      (let newMagnitude = h_magnitude h (fnum_val x)
                       in if newMagnitude = magnitude - exponent then Inr exponent
                          else computeExponentForMagnitude nf (magnitude + 1)))))"

section \<open>core: pattern selection\<close>

definition displayNotationOf :: "UnifiedNumberFormatInternal \<Rightarrow> int \<Rightarrow> displayNotation" where
  \<comment> \<open>the local \<^verbatim>\<open>displayNotation\<close> of \<^verbatim>\<open>getNumberFormatPattern\<close>\<close>
  "displayNotationOf nf exponent =
     (if notationSlot nf = Scientific \<or> notationSlot nf = Engineering then ScientificD
      else if exponent \<noteq> 0 then
        (if compactDisplay nf = Short then CompactShort else CompactLong)
      else StandardD)"

fun num_lt0 :: "number \<Rightarrow> bool" where
  \<comment> \<open>\<^verbatim>\<open>x < 0\<close>\<close>
  "num_lt0 NaN = False"
| "num_lt0 PosInfinity = False"
| "num_lt0 NegInfinity = True"
| "num_lt0 (Finite v) = fnum_lt0 v"

fun num_isNegZero :: "number \<Rightarrow> bool" where
  \<comment> \<open>\<^verbatim>\<open>1 / x === -Infinity\<close>\<close>
  "num_isNegZero (Finite v) = fnum_isNegZero v"
| "num_isNegZero _ = False"

fun num_isZero :: "number \<Rightarrow> bool" where
  \<comment> \<open>\<^verbatim>\<open>x === 0\<close>\<close>
  "num_isZero (Finite v) = fnum_isZero v"
| "num_isZero _ = False"

definition signOf :: "number \<Rightarrow> signPattern" where
  \<comment> \<open>the local \<^verbatim>\<open>sign\<close> of \<^verbatim>\<open>getNumberFormatPattern\<close>\<close>
  "signOf x =
     (if x \<noteq> NaN \<and> (num_lt0 x \<or> num_isNegZero x) then negativePattern
      else if num_isZero x then zeroPattern
      else positivePattern)"

definition getNumberFormatPattern ::
    "UnifiedNumberFormatInternal \<Rightarrow> number \<Rightarrow> int \<Rightarrow> error + string" where
  "getNumberFormatPattern nf x exponent =
     (case
        (case style nf of
           Percent \<Rightarrow> Inr (percentPatterns (patterns (ildData nf)))
         | UnitStyle \<Rightarrow>
             (case unit nf of
                None \<Rightarrow> Inl TypeError
              | Some u \<Rightarrow>
                  (case unitPatterns (patterns (ildData nf)) u of
                     None \<Rightarrow> Inl TypeError
                   | Some byDisplay \<Rightarrow> Inr (byDisplay (unitDisplay nf))))
         | Currency \<Rightarrow> Inl (Error ''not implemented'')
         | Decimal \<Rightarrow> Inr (decimalPatterns (patterns (ildData nf))))
      of
        Inl err \<Rightarrow> Inl err
      | Inr pats \<Rightarrow> Inr (pats (signDisplay nf) (displayNotationOf nf exponent) (signOf x)))"

section \<open>core: assembling the parts\<close>

definition isWordChar :: "char \<Rightarrow> bool" where
  \<comment> \<open>the class \<^verbatim>\<open>\w\<close> of a regular expression\<close>
  "isWordChar c =
     (let k = (of_char c :: int)
      in (48 \<le> k \<and> k \<le> 57) \<or> (65 \<le> k \<and> k \<le> 90) \<or> (97 \<le> k \<and> k \<le> 122) \<or> k = 95)"

function split_pattern :: "string \<Rightarrow> string \<Rightarrow> string list" where
  \<comment> \<open>\<^verbatim>\<open>pattern.split(/({\w+})/)\<close>: the text before each token, the token, and the rest\<close>
  "split_pattern acc [] = [acc]"
| "split_pattern acc (c # cs) =
     (if c = CHR ''{'' \<and> takeWhile isWordChar cs \<noteq> []
         \<and> dropWhile isWordChar cs \<noteq> [] \<and> hd (dropWhile isWordChar cs) = CHR ''}''
      then acc # (c # takeWhile isWordChar cs @ ''}'')
             # split_pattern [] (tl (dropWhile isWordChar cs))
      else split_pattern (acc @ [c]) cs)"
  by pat_completeness auto
termination
proof (relation "measure (\<lambda>(acc, s). length s)")
  show "wf (measure (\<lambda>(acc :: string, s :: string). length s))" by simp
next
  fix acc :: string and c :: char and cs :: string
  have "length (tl (dropWhile isWordChar cs)) \<le> length cs"
    using length_dropWhile_le [of isWordChar cs] by simp
  then show "(([], tl (dropWhile isWordChar cs)), (acc, c # cs))
      \<in> measure (\<lambda>(acc, s). length s)" by simp
next
  fix acc :: string and c :: char and cs :: string
  show "((acc @ [c], cs), (acc, c # cs)) \<in> measure (\<lambda>(acc, s). length s)" by simp
qed

definition patternParts :: "string \<Rightarrow> string list" where
  \<comment> \<open>\<^verbatim>\<open>pattern.split(/({\w+})/).filter(x => x)\<close>\<close>
  "patternParts pattern = filter (\<lambda>x. x \<noteq> []) (split_pattern [] pattern)"

definition selectPlural :: "(number \<Rightarrow> string) \<Rightarrow> number \<Rightarrow> pluralData \<Rightarrow> string" where
  "selectPlural pl x rules =
     (case rules of
        PString r \<Rightarrow> r
      | PRules one other \<Rightarrow> (if pl x = ''one'' then one else other))"

definition replaceDigit :: "string list \<Rightarrow> char \<Rightarrow> string" where
  \<comment> \<open>\<^verbatim>\<open>replacementTable[+digit]\<close>, appended to a string: a missing entry reads \<open>undefined\<close>\<close>
  "replaceDigit replacementTable digit =
     (let k = (of_char digit :: int)
      in if 48 \<le> k \<and> k \<le> 57 \<and> nat (k - 48) < length replacementTable
         then replacementTable ! nat (k - 48) else ''undefined'')"

function groupLoop :: "string \<Rightarrow> int \<Rightarrow> string list \<Rightarrow> string list \<times> int" where
  \<comment> \<open>\<^verbatim>\<open>for (; i > 0; i -= 3) { groups.push(n.slice(i, i + 3)); }\<close>\<close>
  "groupLoop n i groups =
     (if 0 < i then groupLoop n (i - 3) (groups @ [js_slice n i (i + 3)]) else (groups, i))"
  by pat_completeness auto
termination
  by (relation "measure (\<lambda>(n, i, groups). nat i)") auto

declare groupLoop.simps [simp del]

function popGroups ::
    "string \<Rightarrow> string list \<Rightarrow> UnifiedNumberFormatPart list \<Rightarrow> UnifiedNumberFormatPart list" where
  \<comment> \<open>the loop \<^verbatim>\<open>while (groups.length > 0)\<close> that pops the groups into the results\<close>
  "popGroups groupSepSymbol groups results =
     (if groups \<noteq> [] then
        popGroups groupSepSymbol (butlast groups)
          (results @ [Part ''integer'' (last groups)]
             @ (if butlast groups \<noteq> [] then [Part ''group'' groupSepSymbol] else []))
      else results)"
  by pat_completeness auto
termination
  by (relation "measure (\<lambda>(sep, groups, results). length groups)") auto

declare popGroups.simps [simp del]

definition numberParts ::
    "(string \<rightharpoonup> string list) \<Rightarrow> UnifiedNumberFormatInternal \<Rightarrow> string
      \<Rightarrow> string \<times> UnifiedNumberFormatPart list" where
  \<comment> \<open>the finite case of the token \<^verbatim>\<open>{number}\<close>: the new \<^verbatim>\<open>n\<close> and the parts pushed\<close>
  "numberParts ILND nf n0 =
     (let nu = numberingSystem nf;
          n = (case (if nu \<noteq> [] then ILND nu else None) of
                 Some replacementTable \<Rightarrow> concat (map (replaceDigit replacementTable) n0)
               | None \<Rightarrow> n0);
          decimalSepIndex = indexOf n CHR ''.'';
          integer = (if 0 < decimalSepIndex then js_slice n 0 decimalSepIndex else n);
          fraction = (if 0 < decimalSepIndex then Some (js_slice_from n (decimalSepIndex + 1))
                      else None);
          results =
            (if useGrouping nf then
               (let groupSepSymbol = group (symbols (ild (ildData nf)));
                    (groups, i) = groupLoop n (int (length n) - 3) [];
                    groups = groups @ [js_slice n 0 (i + 3)]
                in popGroups groupSepSymbol groups [])
             else [Part ''integer'' integer]);
          results =
            (case fraction of
               Some fr \<Rightarrow>
                 results @ [Part ''decimal'' (decimal (symbols (ild (ildData nf)))),
                            Part ''fraction'' fr]
             | None \<Rightarrow> results)
      in (n, results))"

record loopState =
  ls_n :: string
  ls_exponent :: int
  ls_results :: "UnifiedNumberFormatPart list"

definition push :: "UnifiedNumberFormatPart list \<Rightarrow> loopState \<Rightarrow> error + loopState" where
  "push ps st = Inr (st\<lparr>ls_results := ls_results st @ ps\<rparr>)"

definition unitRules :: "UnifiedNumberFormatInternal \<Rightarrow> string \<Rightarrow> pluralData option" where
  \<comment> \<open>\<^verbatim>\<open>unitSymbols[p] || unitSymbols[InternalSlotToken.unitSymbol]\<close> for the unit of the
      formatter; \<open>None\<close> where JavaScript reads through \<open>undefined\<close>\<close>
  "unitRules nf p =
     (case (case unit nf of None \<Rightarrow> None | Some u \<Rightarrow> unitSymbols (ild (ildData nf)) u) of
        None \<Rightarrow> None
      | Some unitSyms \<Rightarrow>
          (case unitSyms p of
             Some (PString []) \<Rightarrow> unitSyms ''unitSymbol''
           | Some r \<Rightarrow> Some r
           | None \<Rightarrow> unitSyms ''unitSymbol''))"

definition unitToken ::
    "(number \<Rightarrow> string) \<Rightarrow> UnifiedNumberFormatInternal \<Rightarrow> number \<Rightarrow> string \<Rightarrow> loopState
      \<Rightarrow> error + loopState" where
  \<comment> \<open>the tokens \<^verbatim>\<open>unitSymbol\<close>, \<^verbatim>\<open>unitNarrowSymbol\<close> and \<^verbatim>\<open>unitName\<close>\<close>
  "unitToken pl nf num p st =
     (if style nf = UnitStyle then
        (case unitRules nf p of
           None \<Rightarrow> Inl TypeError
         | Some rules \<Rightarrow> push [Part ''unit'' (selectPlural pl num rules)] st)
      else Inr st)"

definition currencyToken ::
    "(number \<Rightarrow> string) \<Rightarrow> UnifiedNumberFormatInternal \<Rightarrow> number \<Rightarrow> string \<Rightarrow> loopState
      \<Rightarrow> error + loopState" where
  \<comment> \<open>the tokens \<^verbatim>\<open>currencyCode\<close>, \<^verbatim>\<open>currencySymbol\<close>, \<^verbatim>\<open>currencyNarrowSymbol\<close>
      and \<^verbatim>\<open>currencyName\<close>; a currency style has a currency\<close>
  "currencyToken pl nf num p st =
     (if style nf = Currency then
        (case currency nf of
           None \<Rightarrow> Inl TypeError
         | Some cur \<Rightarrow>
             (let cd =
                (if p = ''currencyCode'' then Inr (Some cur)
                 else
                   (case currencySymbols (ild (ildData nf)) cur of
                      None \<Rightarrow> Inl TypeError
                    | Some data \<Rightarrow>
                        (if p = ''currencyName'' then
                           (case currencyName data of
                              None \<Rightarrow> Inl TypeError
                            | Some rules \<Rightarrow> Inr (Some (selectPlural pl num rules)))
                         else if p = ''currencySymbol'' then Inr (currencySymbol data)
                         else Inr (currencyNarrowSymbol data))))
              in case cd of
                   Inl err \<Rightarrow> Inl err
                 | Inr c \<Rightarrow>
                     push [Part ''unit''
                             (case c of None \<Rightarrow> cur | Some v \<Rightarrow> (if v = [] then cur else v))] st))
      else Inr st)"

definition token ::
    "host \<Rightarrow> (string \<rightharpoonup> string list) \<Rightarrow> (number \<Rightarrow> string) \<Rightarrow> UnifiedNumberFormatInternal
      \<Rightarrow> number \<Rightarrow> string \<Rightarrow> loopState \<Rightarrow> error + loopState" where
  \<comment> \<open>the \<^verbatim>\<open>switch (p)\<close> on the name between the braces; the names are the values of
      \<^verbatim>\<open>InternalSlotToken\<close>\<close>
  "token h ILND pl nf num p st =
     (let sym = symbols (ild (ildData nf))
      in if p = ''number'' then
           (if num = NaN then push [Part ''nan'' (ls_n st)] st
            else if num = PosInfinity \<or> num = NegInfinity then
              push [Part ''infinity'' (ls_n st)] st
            else
              (let (n, ps) = numberParts ILND nf (ls_n st)
               in push ps (st\<lparr>ls_n := n\<rparr>)))
         else if p = ''plusSign'' then push [Part ''plusSign'' (plusSign sym)] st
         else if p = ''minusSign'' then push [Part ''minusSign'' (minusSign sym)] st
         else if p = ''compactSymbol'' \<or> p = ''compactName'' then
           Inl (Error ''not implemented'')
         else if p = ''scientificSeparator'' then
           push [Part ''exponentSeparator'' (exponential sym)] st
         else if p = ''scientificExponent'' then
           (let neg = (ls_exponent st < 0);
                exponent = (if neg then - ls_exponent st else ls_exponent st);
                exponentResult = toRawFixed h (of_int exponent) 0 0
            in push ((if neg then [Part ''exponentMinusSign'' (minusSign sym)] else [])
                      @ [Part ''exponentInteger'' (formattedString exponentResult)])
                 (st\<lparr>ls_exponent := exponent\<rparr>))
         else if p = ''percentSign'' then push [Part ''percentSign'' (percentSign sym)] st
         else if p = ''unitSymbol'' \<or> p = ''unitNarrowSymbol'' \<or> p = ''unitName'' then
           unitToken pl nf num p st
         else if p = ''currencyCode'' \<or> p = ''currencySymbol''
                 \<or> p = ''currencyNarrowSymbol'' \<or> p = ''currencyName'' then
           currencyToken pl nf num p st
         else Inl (Error ''impossible''))"

fun partsLoop ::
    "host \<Rightarrow> (string \<rightharpoonup> string list) \<Rightarrow> (number \<Rightarrow> string) \<Rightarrow> UnifiedNumberFormatInternal
      \<Rightarrow> number \<Rightarrow> string list \<Rightarrow> loopState \<Rightarrow> error + loopState" where
  \<comment> \<open>\<^verbatim>\<open>for (const part of patternParts)\<close>; a \<^verbatim>\<open>throw\<close> leaves the loop with the error\<close>
  "partsLoop h ILND pl nf num [] st = Inr st"
| "partsLoop h ILND pl nf num (part # rest) st =
     (case (if take 1 part \<noteq> ''{'' then push [Part ''literal'' part] st
            else token h ILND pl nf num (js_slice part 1 (-1)) st) of
        Inl err \<Rightarrow> Inl err
      | Inr st' \<Rightarrow> partsLoop h ILND pl nf num rest st')"

definition formatToParts ::
    "host \<Rightarrow> (string \<rightharpoonup> string list) \<Rightarrow> (number \<Rightarrow> string) \<Rightarrow> UnifiedNumberFormatInternal
      \<Rightarrow> number \<Rightarrow> error + UnifiedNumberFormatPart list" where
  "formatToParts h ILND pl nf num0 =
     (let sym = symbols (ild (ildData nf))
      in case
           (case num0 of
              NaN \<Rightarrow> Inr (nan sym, num0, 0)
            | PosInfinity \<Rightarrow> Inr (infinity sym, num0, 0)
            | NegInfinity \<Rightarrow> Inr (infinity sym, num0, 0)
            | Finite v0 \<Rightarrow>
                (let v = (if style nf = Percent then fnum_scale h v0 100 else v0)
                 in case computeExponent h nf v of
                      Inl err \<Rightarrow> Inl err
                    | Inr exponent \<Rightarrow>
                        (let formatNumberResult =
                               formatNumberToString h nf (fnum_scale h v (h_pow10 h (- exponent)))
                         in Inr (fn_formattedString formatNumberResult,
                                 Finite (fn_roundedNumber formatNumberResult), exponent))))
         of
           Inl err \<Rightarrow> Inl err
         | Inr (n, num, exponent) \<Rightarrow>
             (case getNumberFormatPattern nf num exponent of
                Inl err \<Rightarrow> Inl err
              | Inr pattern \<Rightarrow>
                  (case partsLoop h ILND pl nf num (patternParts pattern)
                          \<lparr>ls_n = n, ls_exponent = exponent, ls_results = []\<rparr> of
                     Inl err \<Rightarrow> Inl err
                   | Inr st \<Rightarrow> Inr (ls_results st))))"

definition format ::
    "host \<Rightarrow> (string \<rightharpoonup> string list) \<Rightarrow> (number \<Rightarrow> string) \<Rightarrow> UnifiedNumberFormatInternal
      \<Rightarrow> number \<Rightarrow> error + string" where
  "format h ILND pl nf num =
     (case formatToParts h ILND pl nf num of
        Inl err \<Rightarrow> Inl err
      | Inr parts \<Rightarrow> Inr (concat (map part_value parts)))"

section \<open>A locale for concrete runs\<close>

text \<open>
  The patterns and symbols of English, as far as the decimal and percent styles need them,
  and the unit \<open>meter\<close>.
\<close>

definition en_signs :: "string \<Rightarrow> string \<Rightarrow> signDisplay \<Rightarrow> signPattern \<Rightarrow> string" where
  "en_signs pre post sd sp =
     (case sd of
        Auto \<Rightarrow> (if sp = negativePattern then ''{minusSign}'' else [])
      | Always \<Rightarrow> (if sp = negativePattern then ''{minusSign}'' else ''{plusSign}'')
      | Never \<Rightarrow> []
      | ExceptZero \<Rightarrow>
          (case sp of positivePattern \<Rightarrow> ''{plusSign}'' | zeroPattern \<Rightarrow> []
           | negativePattern \<Rightarrow> ''{minusSign}''))
     @ pre @ post"

definition en_number :: "displayNotation \<Rightarrow> string" where
  "en_number dn =
     (case dn of
        StandardD \<Rightarrow> ''{number}''
      | ScientificD \<Rightarrow> ''{number}{scientificSeparator}{scientificExponent}''
      | CompactShort \<Rightarrow> ''{number}{compactSymbol}''
      | CompactLong \<Rightarrow> ''{number} {compactName}'')"

definition en_data :: NumberInternalSlots where
  "en_data =
     \<lparr>ild =
        \<lparr>symbols =
           \<lparr>nan = ''NaN'', infinity = ''Inf'', group = '','', decimal = ''.'',
            plusSign = ''+'', minusSign = ''-'', exponential = ''E'', percentSign = ''%''\<rparr>,
         unitSymbols =
           [''meter'' \<mapsto>
              [''unitSymbol'' \<mapsto> PString ''m'', ''unitName'' \<mapsto> PRules ''meter'' ''meters'']],
         currencySymbols = Map.empty\<rparr>,
      patterns =
        \<lparr>decimalPatterns = (\<lambda>sd dn sp. en_signs (en_number dn) [] sd sp),
         percentPatterns = (\<lambda>sd dn sp. en_signs (en_number dn) ''{percentSign}'' sd sp),
         unitPatterns =
           [''meter'' \<mapsto>
              (\<lambda>ud sd dn sp.
                 en_signs (en_number dn)
                   (if ud = UnitLong then '' {unitName}'' else '' {unitSymbol}'') sd sp)]\<rparr>\<rparr>"

definition en_pl :: "number \<Rightarrow> string" where
  \<comment> \<open>the plural category of English\<close>
  "en_pl x = (if x = Finite (Fin 1) then ''one'' else ''other'')"

definition en_decimal :: UnifiedNumberFormatInternal where
  \<comment> \<open>\<^verbatim>\<open>new UnifiedNumberFormat('en')\<close>: the defaults of the constructor\<close>
  "en_decimal =
     \<lparr>style = Decimal, currency = None, unit = None, unitDisplay = UnitShort,
      roundingType = FractionDigits, notationSlot = Standard, compactDisplay = Short,
      signDisplay = Auto, useGrouping = True, minimumIntegerDigits = 1,
      minimumFractionDigits = 0, maximumFractionDigits = 3,
      minimumSignificantDigits = 1, maximumSignificantDigits = 21,
      ildData = en_data, numberingSystem = ''latn''\<rparr>"

definition en_scientific0 :: UnifiedNumberFormatInternal where
  \<comment> \<open>\<^verbatim>\<open>{notation: 'scientific', maximumFractionDigits: 0}\<close>\<close>
  "en_scientific0 = en_decimal\<lparr>notationSlot := Scientific, maximumFractionDigits := 0\<rparr>"

definition en_exceptZero0 :: UnifiedNumberFormatInternal where
  \<comment> \<open>\<^verbatim>\<open>{signDisplay: 'exceptZero', maximumFractionDigits: 0}\<close>\<close>
  "en_exceptZero0 = en_decimal\<lparr>signDisplay := ExceptZero, maximumFractionDigits := 0\<rparr>"

definition en_always0 :: UnifiedNumberFormatInternal where
  \<comment> \<open>\<^verbatim>\<open>{signDisplay: 'always', maximumFractionDigits: 0}\<close>\<close>
  "en_always0 = en_decimal\<lparr>signDisplay := Always, maximumFractionDigits := 0\<rparr>"

definition en_compact :: UnifiedNumberFormatInternal where
  \<comment> \<open>\<^verbatim>\<open>{notation: 'compact'}\<close>\<close>
  "en_compact = en_decimal\<lparr>notationSlot := Compact, roundingType := CompactRounding\<rparr>"

definition en_currency :: UnifiedNumberFormatInternal where
  \<comment> \<open>\<^verbatim>\<open>{style: 'currency', currency: 'USD'}\<close>\<close>
  "en_currency =
     en_decimal\<lparr>style := Currency, currency := Some ''USD'',
       minimumFractionDigits := 2, maximumFractionDigits := 2\<rparr>"

definition en_significant2 :: UnifiedNumberFormatInternal where
  \<comment> \<open>\<^verbatim>\<open>{minimumSignificantDigits: 2, maximumSignificantDigits: 2, minimumIntegerDigits: 3}\<close>\<close>
  "en_significant2 =
     en_decimal\<lparr>roundingType := SignificantDigits, minimumSignificantDigits := 2,
       maximumSignificantDigits := 2, minimumIntegerDigits := 3\<rparr>"


section \<open>Patterns whose tokens all resolve\<close>




section \<open>Measures of a digit string\<close>




definition digitString :: "string \<Rightarrow> bool" where
  \<comment> \<open>every character is one of \<open>0\<close> to \<open>9\<close> (the codes 48 to 57)\<close>
  "digitString s = list_all (\<lambda>c. 48 \<le> (of_char c :: int) \<and> (of_char c :: int) \<le> 57) s"

definition integerDigits :: "string \<Rightarrow> nat" where
  \<comment> \<open>the characters before the decimal point\<close>
  "integerDigits s = length (takeWhile (\<lambda>c. c \<noteq> CHR ''.'') s)"

section \<open>Strings: the JavaScript operations as list operations\<close>

lemma repeat_char: "repeat [c] n = replicate (nat n) c"
  by (induction "nat n" arbitrary: n) (auto simp: repeat_def)

lemma js_slice_take: "0 \<le> k \<Longrightarrow> js_slice s 0 k = take (nat k) s"
  by (auto simp: js_slice_def Let_def min_def)

lemma js_slice_from_drop: "0 \<le> k \<Longrightarrow> js_slice_from s k = drop (nat k) s"
  by (auto simp: js_slice_from_def js_slice_def Let_def min_def)

lemma js_slice_butlast: "js_slice s 0 (-1) = butlast s"
  by (auto simp: js_slice_def Let_def max_def butlast_conv_take nat_diff_distrib)

lemma endsWith_char: "endsWith s [c] \<longleftrightarrow> s \<noteq> [] \<and> last s = c"
proof (cases s rule: rev_cases)
  case Nil
  then show ?thesis by (simp add: endsWith_def)
next
  case (snoc ys y)
  then show ?thesis by (auto simp: endsWith_def)
qed

lemma trimZeros_replicate:
  "c \<le> k \<Longrightarrow> trimZeros (xs @ replicate k CHR ''0'') c = xs @ replicate (k - c) CHR ''0''"
proof (induction c arbitrary: k)
  case 0
  then show ?case by simp
next
  case (Suc c)
  then obtain k' where k: "k = Suc k'" by (cases k) auto
  have e: "xs @ replicate (Suc k') CHR ''0'' = (xs @ replicate k' CHR ''0'') @ ''0''"
    by (simp add: replicate_append_same)
  show ?case using Suc
    by (simp add: k endsWith_char js_slice_butlast e del: replicate_Suc append_assoc)
qed

section \<open>Rounding to an integer\<close>




lemma roundTies_bounds: "\<lfloor>s\<rfloor> \<le> roundTies h s" "roundTies h s \<le> \<lceil>s\<rceil>"
  using floor_le_ceiling [of s] by (simp_all add: roundTies_def Let_def)

section \<open>The exact host\<close>

lemma exactHost_simps:
  "h_mul exactHost a b = a * b"
  "h_div exactHost a b = a / b"
  "h_sub exactHost a b = a - b"
  "h_round exactHost a = a"
  "h_pow10 exactHost k = pow10 k"
  "h_magnitude exactHost a = floorLog10 a"
  by (simp_all add: exactHost_def h_mul_def h_div_def h_sub_def)


section \<open>Failures and zeros\<close>

lemma computeExponentForMagnitude_compact:
  "notationSlot nf = Compact \<Longrightarrow>
     computeExponentForMagnitude nf m = Inl (Error ''`compact` is not implemented yet.'')"
  by (simp add: computeExponentForMagnitude_def)

lemma computeExponentForMagnitude_error:
  "computeExponentForMagnitude nf m = Inl err \<Longrightarrow>
     err = Error ''`compact` is not implemented yet.''"
  by (cases "notationSlot nf") (auto simp: computeExponentForMagnitude_def)

lemma computeExponent_compact:
  "notationSlot nf = Compact \<Longrightarrow> \<not> fnum_isZero v \<Longrightarrow>
     computeExponent h nf v = Inl (Error ''`compact` is not implemented yet.'')"
  by (simp add: computeExponent_def Let_def computeExponentForMagnitude_compact)

lemma computeExponent_error:
  "computeExponent h nf v = Inl err \<Longrightarrow> err = Error ''`compact` is not implemented yet.''"
  unfolding computeExponent_def Let_def
  by (auto split: if_splits sum.splits dest: computeExponentForMagnitude_error)

lemma getNumberFormatPattern_currency:
  "style nf = Currency \<Longrightarrow> getNumberFormatPattern nf x e = Inl (Error ''not implemented'')"
  by (simp add: getNumberFormatPattern_def)


lemma fnum_isZero_scale:
  "q \<noteq> 0 \<Longrightarrow> fnum_isZero (fnum_scale exactHost v q) = fnum_isZero v"
  by (cases v) (auto simp: fnum_isZero_def exactHost_simps)



























section \<open>Powers of ten and the magnitude\<close>

lemma pow10_powi: "pow10 k = 10 powi k"
  by (simp add: pow10_def power_int_def inverse_eq_divide power_one_over)

lemma pow10_pos: "0 < pow10 k"
  by (simp add: pow10_powi)

lemma pow10_add: "pow10 (a + b) = pow10 a * pow10 b"
  by (simp add: pow10_powi power_int_add)

lemma pow10_nat: "pow10 (int n) = 10 ^ n"
  by (simp add: pow10_def)

lemma pow10_Suc: "pow10 (k + 1) = 10 * pow10 k"
  using pow10_add [of k 1] by (simp add: pow10_def)

lemma log10_up_bounds:
  "1 \<le> x \<Longrightarrow> 0 \<le> log10_up x \<and> pow10 (log10_up x) \<le> x \<and> x < pow10 (log10_up x + 1)"
proof (induction x rule: log10_up.induct)
  case (1 x)
  show ?case
  proof (cases "10 \<le> x")
    case True
    define k where "k = log10_up (x / 10)"
    from True have "1 \<le> x / 10" by simp
    with 1 True have ih: "0 \<le> k" "pow10 k \<le> x / 10" "x / 10 < pow10 (k + 1)"
      by (auto simp: k_def)
    have e: "log10_up x = k + 1" using True unfolding k_def by (subst log10_up.simps) simp
    have p1: "pow10 (k + 1) = 10 * pow10 k" by (rule pow10_Suc)
    have p2: "pow10 (k + 1 + 1) = 10 * pow10 (k + 1)" by (rule pow10_Suc)
    from ih(1) have "0 \<le> k + 1" by simp
    moreover from ih(2) have "pow10 (k + 1) \<le> x" unfolding p1 by linarith
    moreover from ih(3) have "x < pow10 (k + 1 + 1)" unfolding p2 by linarith
    ultimately show ?thesis unfolding e by blast
  next
    case False
    then have e: "log10_up x = 0" by (subst log10_up.simps) simp
    from False 1(2) show ?thesis unfolding e by (simp add: pow10_def)
  qed
qed

lemma log10_down_bounds:
  "0 < x \<Longrightarrow> x < 1 \<Longrightarrow> pow10 (log10_down x) \<le> x \<and> x < pow10 (log10_down x + 1)"
proof (induction x rule: log10_down.induct)
  case (1 x)
  have e: "log10_down x = log10_down (x * 10) - 1" using 1(2,3) by (subst log10_down.simps) simp
  show ?case
  proof (cases "x * 10 < 1")
    case True
    with 1 have ih: "pow10 (log10_down (x * 10)) \<le> x * 10"
      "x * 10 < pow10 (log10_down (x * 10) + 1)" by auto
    have "pow10 (log10_down (x * 10)) = 10 * pow10 (log10_down (x * 10) - 1)"
      using pow10_Suc [of "log10_down (x * 10) - 1"] by simp
    with ih show ?thesis unfolding e by (simp add: pow10_Suc)
  next
    case False
    then have "log10_down (x * 10) = 0" by (subst log10_down.simps) simp
    with False 1(3) show ?thesis unfolding e by (simp add: pow10_def)
  qed
qed

lemma floorLog10_bounds:
  assumes "0 < x"
  shows "pow10 (floorLog10 x) \<le> x" and "x < pow10 (floorLog10 x + 1)"
  using assms log10_up_bounds [of x] log10_down_bounds [of x]
  by (auto simp: floorLog10_def not_le)

section \<open>Decimal digits of an integer\<close>


lemma digit_char_zero:
  assumes "0 \<le> d" and "d < 10"
  shows "char_of (48 + d :: int) = CHR ''0'' \<longleftrightarrow> d = 0"
proof
  assume eq: "char_of (48 + d) = CHR ''0''"
  then have "(of_char (char_of (48 + d)) :: int) = of_char CHR ''0''" by simp
  then have "(48 + d) mod 256 = 48" by simp
  with assms show "d = 0" by simp
next
  have "char_of (48 :: int) = CHR ''0''" by code_simp
  moreover assume "d = 0"
  ultimately show "char_of (48 + d) = CHR ''0''" by simp
qed

lemma digits_nonempty: "digits n \<noteq> []"
  by (subst digits.simps) simp


lemma digits_hd: "1 \<le> n \<Longrightarrow> hd (digits n) \<noteq> CHR ''0''"
proof (induction n rule: digits.induct)
  case (1 n)
  show ?case
  proof (cases "n < 10")
    case True
    with 1(2) show ?thesis by (subst digits.simps) (simp add: digit_char_zero)
  next
    case False
    then have "1 \<le> n div 10" by simp
    with 1(1) False have "hd (digits (n div 10)) \<noteq> CHR ''0''" by simp
    then show ?thesis using False by (subst digits.simps) (simp add: digits_nonempty)
  qed
qed

lemma digits_length_ge: "10 ^ k \<le> n \<Longrightarrow> k < length (digits n)"
proof (induction n arbitrary: k rule: digits.induct)
  case (1 n)
  show ?case
  proof (cases "n < 10")
    case True
    have "k = 0"
    proof (rule ccontr)
      assume "k \<noteq> 0"
      then obtain j where "k = Suc j" by (cases k) auto
      then have "(10::int) \<le> 10 ^ k" by simp
      with 1(2) True show False by simp
    qed
    then show ?thesis by (simp add: digits_nonempty)
  next
    case False
    show ?thesis
    proof (cases k)
      case 0
      then show ?thesis by (simp add: digits_nonempty)
    next
      case (Suc j)
      with 1(2) have "10 ^ j * 10 \<le> n" by simp
      from zdiv_mono1 [OF this, of 10] have "10 ^ j \<le> n div 10" by simp
      with 1(1) False have "j < length (digits (n div 10))" by simp
      then show ?thesis using False Suc by (subst digits.simps) simp
    qed
  qed
qed

lemma digits_length_le: "n < 10 ^ k \<Longrightarrow> 1 \<le> k \<Longrightarrow> length (digits n) \<le> k"
proof (induction n arbitrary: k rule: digits.induct)
  case (1 n)
  show ?case
  proof (cases "n < 10")
    case True
    with 1(3) show ?thesis by (subst digits.simps) simp
  next
    case False
    from 1(3) obtain j where k: "k = Suc j" by (cases k) auto
    have "1 \<le> j"
    proof (rule ccontr)
      assume "\<not> 1 \<le> j"
      then have "j = 0" by simp
      with k 1(2) False show False by simp
    qed
    from 1(2) k have "n < 10 ^ j * 10" by simp
    then have "n div 10 < 10 ^ j" by (simp add: div_less_iff_less_mult)
    with 1(1) False \<open>1 \<le> j\<close> have "length (digits (n div 10)) \<le> j" by simp
    then show ?thesis using False k by (subst digits.simps) simp
  qed
qed

section \<open>The number that a digit string denotes\<close>

lemma digit_char_value:
  assumes "0 \<le> d" and "d < 10"
  shows "of_char (char_of (48 + d :: int)) = (48 + d :: int)"
  using assms by simp

lemma digits_digitString: "0 \<le> n \<Longrightarrow> digitString (digits n)"
proof (induction n rule: digits.induct)
  case (1 n)
  show ?case
  proof (cases "n < 10")
    case True
    with 1(2) show ?thesis by (subst digits.simps) (simp add: digitString_def)
  next
    case False
    with 1 have "digitString (digits (n div 10))" by simp
    moreover have "of_char (char_of (48 + n mod 10)) = (48 + n mod 10 :: int)"
      by (rule digit_char_value) simp_all
    ultimately show ?thesis using False
      by (subst digits.simps) (simp add: digitString_def)
  qed
qed












section \<open>The digit strings of ToRawFixed and ToRawPrecision\<close>


lemma indexOf_present: "c \<in> set s \<Longrightarrow> 0 \<le> indexOf s c"
  by (induction s) (auto simp: Let_def)

lemma toString_digits: "0 \<le> n \<Longrightarrow> n \<le> 2 ^ 53 \<Longrightarrow> toString h n = digits n"
  by (simp add: toString_def)

lemma digits_length:
  assumes "1 \<le> k" and "10 ^ (k - 1) \<le> n" and "n < 10 ^ k"
  shows "length (digits n) = k"
proof -
  from digits_length_ge [OF assms(2)] assms(1) have "k \<le> length (digits n)" by simp
  with digits_length_le [OF assms(3,1)] show ?thesis by simp
qed

lemma toRawFixed_formattedString:
  "formattedString (toRawFixed h x a f) =
    (let n = toRawFixed_n h x f;
         m = (if n = 0 then ''0'' else toString h n);
         k = int (length m);
         m2 = (if k \<le> int f then repeat ''0'' (int f + 1 - k) @ m else m);
         k2 = (if k \<le> int f then int f + 1 else k)
     in dropPoint (trimZeros
          (if f \<noteq> 0 then js_slice m2 0 (k2 - int f) @ ''.'' @ js_slice_from m2 (k2 - int f)
           else m) (f - a)))"
  by (simp add: toRawFixed_def Let_def split: prod.splits)





section \<open>Significant digits of the precision layouts\<close>









lemma toString_plain:
  assumes "1 \<le> k" and "10 ^ (k - 1) \<le> n" and "n < 10 ^ k" and "n \<le> 2 ^ 53"
  shows "digitString (toString h n)" and "length (toString h n) = k"
    and "hd (toString h n) \<noteq> CHR ''0''"
proof -
  have "(1::int) \<le> 10 ^ (k - 1)" by simp
  with assms(2) have n1: "1 \<le> n" by linarith
  then have n0: "0 \<le> n" by simp
  have ts: "toString h n = digits n" using n0 assms(4) by (rule toString_digits)
  show "digitString (toString h n)" unfolding ts using n0 by (rule digits_digitString)
  show "length (toString h n) = k" unfolding ts using assms(1-3) by (rule digits_length)
  show "hd (toString h n) \<noteq> CHR ''0''" unfolding ts using n1 by (rule digits_hd)
qed


section \<open>The product of 1.005 and 100 in binary64\<close>

text \<open>
  The literal \<^verbatim>\<open>1.005\<close> is the double nearest to \<open>201/200\<close>, a little below it. Its product
  with 100 is rounded to the double next below \<open>100.5\<close>: on a host that rounds to binary64,
  \<^verbatim>\<open>toRawFixed(1.005, 0, 2)\<close> has no tie to break, rounds down to 100 and returns \<open>1\<close>.
\<close>

lemma toRawFixed_1005:
  assumes "h_round h = binary64" and "h_pow10 h 2 = 100"
  shows "binary64 (201/200) = 1131529406376837 / 1125899906842624"
    and "h_mul h (binary64 (201/200)) (h_pow10 h (int 2)) = 201/2 - 1 / 2 ^ 46"
    and "toRawFixed_n h (binary64 (201/200)) 2 = 100"
    and "formattedString (toRawFixed h (binary64 (201/200)) 0 2) = ''1''"
proof -
  show "binary64 (201/200) = 1131529406376837 / 1125899906842624" by code_simp
  have p: "h_pow10 h (int 2) = 100" using assms(2) by simp
  have s: "binary64 (binary64 (201/200) * 100) = 201/2 - 1 / 2 ^ 46" by code_simp
  show m: "h_mul h (binary64 (201/200)) (h_pow10 h (int 2)) = 201/2 - 1 / 2 ^ 46"
    unfolding h_mul_def p assms(1) by (rule s)
  have r: "(if binary64 ((201/2 - 1 / 2 ^ 46) - of_int \<lfloor>201/2 - 1 / 2 ^ 46 :: rat\<rfloor>)
          < binary64 (of_int \<lceil>201/2 - 1 / 2 ^ 46 :: rat\<rceil> - (201/2 - 1 / 2 ^ 46))
       then \<lfloor>201/2 - 1 / 2 ^ 46 :: rat\<rfloor> else \<lceil>201/2 - 1 / 2 ^ 46 :: rat\<rceil>) = 100"
    by code_simp
  show n: "toRawFixed_n h (binary64 (201/200)) 2 = 100"
    unfolding toRawFixed_n_def m roundTies_def Let_def h_sub_def assms(1) by (rule r)
  have t: "toString h 100 = digits 100" by (rule toString_digits) simp_all
  have d: "digits 100 = ''100''" by code_simp
  have l: "dropPoint (trimZeros (js_slice ''100'' 0 (3 - 2) @ ''.'' @ js_slice_from ''100'' (3 - 2))
      (2 - 0)) = ''1''"
    by code_simp
  show "formattedString (toRawFixed h (binary64 (201/200)) 0 2) = ''1''"
    unfolding toRawFixed_formattedString n Let_def t d using l by simp
qed

section \<open>Failures and zeros on every host\<close>

lemma currency_fails:
  assumes "style nf = Currency"
  shows "formatToParts h ILND pl nf x = Inl (Error ''not implemented'')
      \<or> formatToParts h ILND pl nf x = Inl (Error ''`compact` is not implemented yet.'')"
proof (cases x)
  case (Finite v0)
  show ?thesis
  proof (cases "computeExponent h nf (if style nf = Percent then fnum_scale h v0 100 else v0)")
    case (Inl err)
    with computeExponent_error [OF Inl] Finite assms show ?thesis
      by (simp add: formatToParts_def)
  next
    case (Inr ex)
    with Finite assms show ?thesis
      by (simp add: formatToParts_def Let_def getNumberFormatPattern_currency)
  qed
qed (simp_all add: formatToParts_def assms getNumberFormatPattern_currency)

lemma compact_fails:
  assumes "notationSlot nf = Compact"
    and "\<not> fnum_isZero (if style nf = Percent then fnum_scale h v 100 else v)"
  shows "formatToParts h ILND pl nf (Finite v) = Inl (Error ''`compact` is not implemented yet.'')"
proof -
  from assms have "computeExponent h nf (if style nf = Percent then fnum_scale h v 100 else v)
      = Inl (Error ''`compact` is not implemented yet.'')"
    by (rule computeExponent_compact)
  then show ?thesis by (simp add: formatToParts_def Let_def)
qed


section \<open>The claims\<close>

text \<open>
  The concrete runs below are on the exact host, at inputs where rounding the products and
  quotients to doubles changes none of the integers, digit strings and magnitudes
  computed.
\<close>

text \<open>
  C1. For every finite \<open>x \<ge> 0\<close> and \<open>0 \<le> minFraction \<le> maxFraction\<close>, \<^verbatim>\<open>toRawFixed\<close>
  returns as \<open>roundedNumber\<close> the value \<open>n / 10^maxFraction\<close> of the rounded integer \<open>n\<close>,
  in agreement with the digit string. The code divides \<open>x\<close>, not \<open>n\<close>: at \<open>x = 1.5\<close> with
  no fraction digits the digit string is \<open>2\<close>, the value \<open>n / 10^0\<close> is 2, and the
  \<open>roundedNumber\<close> returned is 1.5.
\<close>

theorem toRawFixed_roundedNumber_is_not_rounded:
  "toRawFixed exactHost (3/2) 0 0 =
     \<lparr>formattedString = ''2'', roundedNumber = 3/2, integerDigitsCount = 1\<rparr>
   \<and> rat_of_int (toRawFixed_n exactHost (3/2) 0) / 10 ^ 0 = 2"
  by code_simp

text \<open>
  C2. \<^verbatim>\<open>computeExponent\<close> recomputes the magnitude of the scaled and rounded value and
  moves to the exponent of \<open>magnitude + 1\<close> when rounding crossed a power of ten; under
  scientific notation with no fraction digits, 999.5 has exponent 3 and mantissa \<open>1\<close>.
  The code takes the new magnitude of the scaled value before rounding: 999.5 keeps the
  exponent 2 and is formatted with mantissa \<open>10\<close>.
\<close>

theorem computeExponent_ignores_rounding:
  "computeExponent exactHost en_scientific0 (Fin (1999/2)) = Inr 2
   \<and> formatToParts exactHost Map.empty en_pl en_scientific0 (Finite (Fin (1999/2))) =
       Inr [Part ''integer'' ''10'', Part ''exponentSeparator'' ''E'',
            Part ''exponentInteger'' ''2'']"
  by code_simp

text \<open>
  C3. With grouping, the token \<^verbatim>\<open>{number}\<close> splits the integer digits (those before
  the decimal point) into groups of three from the right, and the fraction follows as one
  decimal part and one fraction part; 1234567 gives \<open>1\<close>, \<open>234\<close>, \<open>567\<close>. The code groups
  the whole digit string, fraction and point included: 1234567 comes out as claimed, and
  1234.5 as the integer parts \<open>123\<close> and \<open>4.5\<close>, followed by the fraction again.
\<close>

theorem grouping_takes_the_fraction_too:
  "formatToParts exactHost Map.empty en_pl en_decimal (Finite (Fin 1234567)) =
     Inr [Part ''integer'' ''1'', Part ''group'' '','', Part ''integer'' ''234'',
          Part ''group'' '','', Part ''integer'' ''567'']
   \<and> formatToParts exactHost Map.empty en_pl en_decimal (Finite (Fin (2469/2))) =
       Inr [Part ''integer'' ''123'', Part ''group'' '','', Part ''integer'' ''4.5'',
            Part ''decimal'' ''.'', Part ''fraction'' ''5'']"
  by code_simp

text \<open>
  C4. The sign class of the pattern comes from the final rounded value: negative (negative
  zero included) gives the negative pattern, a value that rounds to zero the zero pattern,
  anything else the positive pattern. For both zeros the code does so: \<open>-0\<close> takes the
  negative pattern and 0 the zero pattern. For 0.4 with no fraction digits the digit
  string is \<open>0\<close>, yet the value passed on is 0.4 and the positive pattern is selected:
  under \<^verbatim>\<open>signDisplay: 'exceptZero'\<close> the result is \<open>+0\<close>.
\<close>

theorem zero_pattern_missed_for_value_rounding_to_zero:
  "fn_formattedString (formatNumberToString exactHost en_exceptZero0 (Fin (2/5))) = ''0''
   \<and> fn_roundedNumber (formatNumberToString exactHost en_exceptZero0 (Fin (2/5))) = Fin (2/5)
   \<and> signOf (Finite (fn_roundedNumber (formatNumberToString exactHost en_exceptZero0 (Fin (2/5)))))
       = positivePattern
   \<and> formatToParts exactHost Map.empty en_pl en_exceptZero0 (Finite (Fin (2/5))) =
       Inr [Part ''plusSign'' ''+'', Part ''integer'' ''0'']
   \<and> formatToParts exactHost Map.empty en_pl en_exceptZero0 (Finite (Fin 0)) =
       Inr [Part ''integer'' ''0'']
   \<and> signOf (Finite (fn_roundedNumber (formatNumberToString exactHost en_always0 (Fin 0))))
       = zeroPattern
   \<and> signOf (Finite (fn_roundedNumber (formatNumberToString exactHost en_always0 NegZero)))
       = negativePattern
   \<and> fn_formattedString (formatNumberToString exactHost en_always0 NegZero) = ''0''"
  by code_simp

text \<open>
  C5, as stated: for \<open>x = 0\<close> and \<open>1 \<le> minPrecision \<le> maxPrecision\<close>, \<^verbatim>\<open>toRawPrecision\<close>
  returns a string of exactly \<open>maxPrecision\<close> zero digits. With \<open>minPrecision = 1\<close> and
  \<open>maxPrecision = 2\<close> the string is \<open>0\<close>: one zero digit.
\<close>

theorem toRawPrecision_zero_counterexample:
  "formattedString (toRawPrecision exactHost 0 1 2) = ''0''
   \<and> formattedString (toRawPrecision exactHost 0 1 2) \<noteq> replicate 2 CHR ''0''
   \<and> count_list (formattedString (toRawPrecision exactHost 0 1 2)) CHR ''0'' \<noteq> 2"
  by code_simp

text \<open>
  C5, amended: for \<open>x = 0\<close> and \<open>1 \<le> minPrecision \<le> maxPrecision\<close>, \<^verbatim>\<open>toRawPrecision\<close>
  returns exactly \<open>minPrecision\<close> zero digits (the trailing zeros beyond \<open>minPrecision\<close>
  are trimmed), with a decimal point after the first when \<open>minPrecision > 1\<close>,
  \<open>roundedNumber\<close> 0 and integer digit count 1, on every host.
\<close>

theorem toRawPrecision_zero:
  assumes "1 \<le> minPrecision" and "minPrecision \<le> maxPrecision"
  shows "toRawPrecision h 0 minPrecision maxPrecision =
    \<lparr>formattedString =
       (if minPrecision = 1 then ''0'' else ''0.'' @ replicate (minPrecision - 1) CHR ''0''),
     roundedNumber = 0, integerDigitsCount = 1\<rparr>"
proof (cases "maxPrecision = 1")
  case True
  with assms have "minPrecision = 1" by simp
  with True show ?thesis
    by (simp add: toRawPrecision_def toRawPrecision_e_def repeat_char)
next
  case False
  with assms obtain q where q: "maxPrecision = Suc (Suc q)"
    by (metis One_nat_def Suc_le_D le_trans not0_implies_Suc Suc_inject le_zero_eq)
  have t: "trimZeros (''0.'' @ replicate (Suc q) CHR ''0'') (maxPrecision - minPrecision)
      = ''0.'' @ replicate (minPrecision - 1) CHR ''0''"
    using assms by (subst trimZeros_replicate) (auto simp: q)
  show ?thesis
  proof (cases "minPrecision < maxPrecision")
    case True
    show ?thesis
      using True assms t
      by (cases "minPrecision = 1")
         (auto simp: toRawPrecision_def toRawPrecision_e_def repeat_char q js_slice_take
            js_slice_from_drop dropPoint_def endsWith_char js_slice_butlast Let_def
            nat_add_distrib)
  next
    case False
    with assms have "minPrecision = maxPrecision" by simp
    moreover have "nat (2 + int q) = Suc (Suc q)" by simp
    ultimately show ?thesis
      by (auto simp: toRawPrecision_def toRawPrecision_e_def repeat_char q js_slice_take
            js_slice_from_drop Let_def)
  qed
qed

theorem toRawPrecision_zero_witness:
  "(1::nat) \<le> 2 \<and> (2::nat) \<le> 5
   \<and> toRawPrecision exactHost 0 2 5 =
       \<lparr>formattedString = ''0.0'', roundedNumber = 0, integerDigitsCount = 1\<rparr>"
  using toRawPrecision_zero [of 2 5 exactHost] by simp






text \<open>
  C8, as stated: for every input number, formatting with style \<open>currency\<close>, and
  formatting with notation \<open>compact\<close>, fails as not implemented, and no part sequence is
  produced. With notation \<open>compact\<close> and the decimal style, the number 0 is formatted.
\<close>

theorem compact_zero_counterexample:
  "notationSlot en_compact = Compact
   \<and> formatToParts exactHost Map.empty en_pl en_compact (Finite (Fin 0))
       = Inr [Part ''integer'' ''0'']"
  by code_simp

text \<open>
  C8, amended: for every input number, formatting with style \<open>currency\<close> fails as not
  implemented (with one of the two messages of that kind); formatting with notation
  \<open>compact\<close> fails so for every finite input other than the two zeros. The failure is the
  result of the call, and no part sequence comes with it. Lemmas \<open>currency_fails\<close> and
  \<open>compact_fails\<close> give the same on every host, the second for an input whose product with
  100 under the percent style is not zero.
\<close>

theorem currency_and_compact_are_not_implemented:
  "(style nf = Currency \<longrightarrow>
      formatToParts exactHost ILND pl nf x = Inl (Error ''not implemented'')
      \<or> formatToParts exactHost ILND pl nf x = Inl (Error ''`compact` is not implemented yet.''))
   \<and> (notationSlot nf = Compact \<and> \<not> fnum_isZero v \<longrightarrow>
        formatToParts exactHost ILND pl nf (Finite v)
          = Inl (Error ''`compact` is not implemented yet.''))"
proof (intro conjI impI)
  assume "style nf = Currency"
  then show "formatToParts exactHost ILND pl nf x = Inl (Error ''not implemented'')
      \<or> formatToParts exactHost ILND pl nf x = Inl (Error ''`compact` is not implemented yet.'')"
    by (rule currency_fails)
next
  assume h: "notationSlot nf = Compact \<and> \<not> fnum_isZero v"
  then have "\<not> fnum_isZero (if style nf = Percent then fnum_scale exactHost v 100 else v)"
    by (simp add: fnum_isZero_scale)
  with h show "formatToParts exactHost ILND pl nf (Finite v)
      = Inl (Error ''`compact` is not implemented yet.'')"
    by (intro compact_fails) simp_all
qed

theorem currency_and_compact_are_not_implemented_witness:
  "style en_currency = Currency
   \<and> formatToParts exactHost Map.empty en_pl en_currency (Finite (Fin 5))
       = Inl (Error ''not implemented'')
   \<and> notationSlot en_compact = Compact \<and> \<not> fnum_isZero (Fin 5)
   \<and> formatToParts exactHost Map.empty en_pl en_compact (Finite (Fin 5))
       = Inl (Error ''`compact` is not implemented yet.'')"
proof -
  have a: "style en_currency = Currency" by code_simp
  have b: "notationSlot en_compact = Compact \<and> \<not> fnum_isZero (Fin 5)" by code_simp
  have c: "formatToParts exactHost Map.empty en_pl en_currency (Finite (Fin 5))
      \<noteq> Inl (Error ''`compact` is not implemented yet.'')"
    by code_simp
  from currency_and_compact_are_not_implemented [of en_currency Map.empty en_pl "Finite (Fin 5)" "Fin 5"] a c
  have 1: "formatToParts exactHost Map.empty en_pl en_currency (Finite (Fin 5))
      = Inl (Error ''not implemented'')"
    by blast
  from currency_and_compact_are_not_implemented [of en_compact Map.empty en_pl "Finite (Fin 5)" "Fin 5"] b
  have 2: "formatToParts exactHost Map.empty en_pl en_compact (Finite (Fin 5))
      = Inl (Error ''`compact` is not implemented yet.'')"
    by blast
  from a b 1 2 show ?thesis by blast
qed



text \<open>
  C10. After rounding, when the integer digit count of the result is below
  \<open>minimumIntegerDigits\<close>, \<^verbatim>\<open>formatNumberToString\<close> pads the digit string with zeros
  on the left so that the integer part has exactly \<open>minimumIntegerDigits\<close> digits, and
  the rounded number is unchanged. For 99.5 with two significant digits and three integer
  digits, \<^verbatim>\<open>toRawPrecision\<close> returns \<open>100\<close> with integer digit count 2, and the padded
  string \<open>0100\<close> has four integer digits.
\<close>

theorem padding_after_carry_is_too_long:
  "toRawPrecision exactHost (199/2) 2 2 =
     \<lparr>formattedString = ''100'', roundedNumber = 100, integerDigitsCount = 2\<rparr>
   \<and> formatNumberToString exactHost en_significant2 (Fin (199/2)) =
       \<lparr>fn_roundedNumber = Fin 100, fn_formattedString = ''0100''\<rparr>
   \<and> integerDigits (fn_formattedString (formatNumberToString exactHost en_significant2 (Fin (199/2))))
       = 4
   \<and> minimumIntegerDigits en_significant2 = 3"
  by code_simp

end
